theory Spec2Isabelle
  imports Complex_Main "HOL-Library.Sublist"
begin

section \<open>Python values used by the script\<close>

text \<open>
  The program is \<^verbatim>\<open>scripts/openai_stream_benchmark.py\<close>. A Python \<^verbatim>\<open>str\<close> is
  modelled as a HOL \<^typ>\<open>string\<close>, one \<^typ>\<open>char\<close> per code point, so that
  \<^verbatim>\<open>len\<close> is \<^const>\<open>length\<close>; the model therefore covers texts whose code points
  lie below 256. Progress output written with \<^verbatim>\<open>print\<close> is not part of any
  returned value and is left out.
\<close>

text \<open>
  Exceptions are values: the class (as far as the \<^verbatim>\<open>except\<close> clauses of the script
  tell classes apart) and the text \<^verbatim>\<open>str(exc)\<close>. \<open>JSONDecodeError\<close> is a subclass of
  \<open>ValueError\<close>; \<open>OtherError\<close> stands for the exceptions that are instances of none
  of the listed classes. \<open>HTTPError\<close> is raised by \<^verbatim>\<open>urlopen\<close> only and appears in
  its outcome. Exceptions outside \<open>Exception\<close> (a keyboard interrupt) are not modelled.
\<close>

datatype exc_class =
    JSONDecodeError | ValueError | AttributeError | KeyError | TypeError
  | IndexError | RuntimeError | URLError | SocketTimeout | TimeoutError | OtherError

datatype py_exception = Exc (exc_cls: exc_class) (exc_str: string)

text \<open>A Python \<^verbatim>\<open>float\<close>, as far as its truth value goes: \<open>m * 2 ^ e\<close>, an infinity or NaN.\<close>

datatype pyfloat = Finite int int | Infinity bool | NaN

text \<open>
  The values \<^verbatim>\<open>json.loads\<close> returns. A \<^verbatim>\<open>dict\<close> is an association list read
  with \<^const>\<open>map_of\<close>.
\<close>

datatype json =
    JNull
  | JBool bool
  | JInt int
  | JFloat pyfloat
  | JString string
  | JArray "json list"
  | JObject "(string \<times> json) list"

fun type_name :: "json \<Rightarrow> string" where
  "type_name JNull = ''NoneType''"
| "type_name (JBool _) = ''bool''"
| "type_name (JInt _) = ''int''"
| "type_name (JFloat _) = ''float''"
| "type_name (JString _) = ''str''"
| "type_name (JArray _) = ''list''"
| "type_name (JObject _) = ''dict''"

text \<open>\<^verbatim>\<open>not v\<close>: the values Python counts as false.\<close>

fun py_not :: "json \<Rightarrow> bool" where
  "py_not JNull = True"
| "py_not (JBool b) = (\<not> b)"
| "py_not (JInt i) = (i = 0)"
| "py_not (JFloat (Finite m e)) = (m = 0)"
| "py_not (JFloat _) = False"
| "py_not (JString s) = (s = [])"
| "py_not (JArray xs) = (xs = [])"
| "py_not (JObject kvs) = (kvs = [])"

text \<open>
  \<^verbatim>\<open>v.get(key, default)\<close>: only a dict has the method; on any other value the
  attribute lookup raises \<open>AttributeError\<close>.
\<close>

definition no_attribute_get :: "json \<Rightarrow> string" where
  "no_attribute_get v =
     [CHR 0x27] @ type_name v @ [CHR 0x27] @ '' object has no attribute ''
       @ [CHR 0x27] @ ''get'' @ [CHR 0x27]"

fun py_get :: "json \<Rightarrow> string \<Rightarrow> json \<Rightarrow> py_exception + json" where
  "py_get (JObject kvs) key dflt =
     Inr (case map_of kvs key of None \<Rightarrow> dflt | Some v \<Rightarrow> v)"
| "py_get v key dflt = Inl (Exc AttributeError (no_attribute_get v))"

text \<open>
  \<^verbatim>\<open>v[0]\<close>: the first element of a non-empty list, the first character of a
  non-empty string; a dict decoded from JSON has only string keys, so the key \<open>0\<close>
  is missing; the other values cannot be subscripted.
\<close>

fun py_item0 :: "json \<Rightarrow> py_exception + json" where
  "py_item0 (JArray (x # xs)) = Inr x"
| "py_item0 (JArray []) = Inl (Exc IndexError ''list index out of range'')"
| "py_item0 (JString (c # cs)) = Inr (JString [c])"
| "py_item0 (JString []) = Inl (Exc IndexError ''string index out of range'')"
| "py_item0 (JObject kvs) = Inl (Exc KeyError ''0'')"
| "py_item0 v =
     Inl (Exc TypeError
       ([CHR 0x27] @ type_name v @ [CHR 0x27] @ '' object is not subscriptable''))"

subsection \<open>Strings\<close>

text \<open>\<^verbatim>\<open>str.isspace\<close> on the code points below 256.\<close>

definition is_space :: "char \<Rightarrow> bool" where
  "is_space c = (of_char c \<in> {9, 10, 11, 12, 13, 28, 29, 30, 31, 32, 133, 160 :: nat})"

definition lstrip :: "string \<Rightarrow> string" where
  "lstrip s = dropWhile is_space s"

definition rstrip :: "string \<Rightarrow> string" where
  "rstrip s = rev (dropWhile is_space (rev s))"

definition strip :: "string \<Rightarrow> string" where
  "strip s = rstrip (lstrip s)"

definition startswith :: "string \<Rightarrow> string \<Rightarrow> bool" where
  "startswith s p = (take (length p) s = p)"

section \<open>The stream decoder\<close>

text \<open>
  \<^verbatim>\<open>response.readline()\<close> is modelled by the list of its successive outcomes: a
  line (the bytes, decoded as \<^verbatim>\<open>line.decode("utf-8", errors="replace")\<close> does; the
  decoded text is empty exactly when the bytes are) or an exception raised by the
  read. Past the end of the list \<^verbatim>\<open>readline\<close> returns the empty line.

  \<^verbatim>\<open>json.loads\<close> belongs to the standard library and is a parameter of the model:
  \<open>loads data\<close> is the decoded value or the exception raised.
\<close>

type_synonym read_event = "py_exception + string"

type_synonym loads_fn = "string \<Rightarrow> py_exception + json"

text \<open>
  What one pass through the body of the \<^verbatim>\<open>while True\<close> loop (lines 67 to 92) does
  with the line read: \<open>Break\<close> for the two \<^verbatim>\<open>break\<close> statements, \<open>Continue\<close> for
  the three \<^verbatim>\<open>continue\<close> statements and for a token that is not a non-empty string,
  \<open>Emit\<close> for the token appended to \<^verbatim>\<open>full_text\<close>, \<open>Raise\<close> for an exception
  that no clause catches.
\<close>

datatype action = Break | Continue | Emit string | Raise py_exception

definition line_action :: "loads_fn \<Rightarrow> string \<Rightarrow> action" where
  "line_action loads line =
     (if line = [] then Break
      else
        (let decoded = strip line in
         if \<not> startswith decoded ''data:'' then Continue
         else
           (let data = strip (drop 5 decoded) in
            if data = ''[DONE]'' then Break
            else
              (case loads data of
                 Inl e \<Rightarrow> (if exc_cls e = JSONDecodeError then Continue else Raise e)
               | Inr payload \<Rightarrow>
                  (case py_get payload ''choices'' (JArray []) of
                     Inl e \<Rightarrow> Raise e
                   | Inr choices \<Rightarrow>
                      (if py_not choices then Continue
                       else
                         (case py_item0 choices of
                            Inl e \<Rightarrow> Raise e
                          | Inr choice0 \<Rightarrow>
                             (case py_get choice0 ''delta'' (JObject []) of
                                Inl e \<Rightarrow> Raise e
                              | Inr delta \<Rightarrow>
                                 (case py_get delta ''content'' JNull of
                                    Inl e \<Rightarrow> Raise e
                                  | Inr token \<Rightarrow>
                                     (case token of
                                        JString t \<Rightarrow> (if t \<noteq> [] then Emit t else Continue)
                                      | _ \<Rightarrow> Continue))))))))))"

text \<open>
  The loop of lines 66 to 94 over the outcomes of \<^verbatim>\<open>readline\<close>, with the list
  \<^verbatim>\<open>full_text\<close> as accumulator; \<^verbatim>\<open>parse_sse_stream\<close> joins the tokens.
\<close>

fun sse_loop :: "loads_fn \<Rightarrow> read_event list \<Rightarrow> string list \<Rightarrow> py_exception + string list" where
  "sse_loop loads [] full_text = Inr full_text"
| "sse_loop loads (Inl e # rest) full_text = Inl e"
| "sse_loop loads (Inr line # rest) full_text =
     (case line_action loads line of
        Break \<Rightarrow> Inr full_text
      | Continue \<Rightarrow> sse_loop loads rest full_text
      | Emit t \<Rightarrow> sse_loop loads rest (full_text @ [t])
      | Raise e \<Rightarrow> Inl e)"

definition parse_sse_stream :: "loads_fn \<Rightarrow> read_event list \<Rightarrow> py_exception + string" where
  "parse_sse_stream loads response =
     (case sse_loop loads response [] of
        Inl e \<Rightarrow> Inl e
      | Inr full_text \<Rightarrow> Inr (concat full_text))"

section \<open>The platform the script runs on\<close>

text \<open>Formatting an integer in an f-string: \<^verbatim>\<open>str(n)\<close>.\<close>

definition digit_char :: "nat \<Rightarrow> char" where
  "digit_char d = ''0123456789'' ! d"

fun str_nat :: "nat \<Rightarrow> string" where
  "str_nat n =
     (if n < 10 then [digit_char n]
      else str_nat (n div 10) @ [digit_char (n mod 10)])"

definition str_int :: "int \<Rightarrow> string" where
  "str_int i = (if i < 0 then ''-'' @ str_nat (nat (- i)) else str_nat (nat i))"

text \<open>
  What \<^verbatim>\<open>request.urlopen\<close> does with one request: it returns a response (its status
  and the outcomes of the successive reads of its body), raises \<open>HTTPError\<close> (with the
  status code, and the outcome of reading the error body with \<^verbatim>\<open>exc.read()\<close>, already
  decoded), or raises another exception.
\<close>

datatype urlopen_outcome =
    Returns int "read_event list"
  | RaisesHTTPError int "py_exception + string"
  | Raises py_exception

text \<open>The request handed to \<^verbatim>\<open>urlopen\<close>: URL, bearer credential, the body's fields, timeout.\<close>

record http_request =
  req_url :: string
  req_bearer :: string
  req_model :: string
  req_prompt :: string
  req_max_tokens :: int
  req_temperature :: real
  req_timeout :: int

text \<open>
  The mutable world: how many times \<^verbatim>\<open>time.perf_counter\<close> and \<^verbatim>\<open>urlopen\<close> have
  been called, the arguments of the calls of \<^verbatim>\<open>time.sleep\<close>, and the text files.
\<close>

record world =
  ticks :: nat
  calls :: nat
  slept :: "real list"
  files :: "string \<rightharpoonup> string"

text \<open>
  Everything the script takes from outside, fixed for one run: the environment
  variables, the reading of the clock at its \<open>k\<close>-th call (seconds, as a real number:
  the rounding of floats is not modelled), the behaviour of the network at the \<open>k\<close>-th
  call of \<^verbatim>\<open>urlopen\<close>, \<^verbatim>\<open>json.loads\<close>, the validation done by the constructor
  \<^verbatim>\<open>request.Request\<close> (which raises \<open>ValueError\<close> for a URL without a scheme),
  and the parsers \<^verbatim>\<open>int\<close> and \<^verbatim>\<open>float\<close> (\<open>None\<close> when they raise \<open>ValueError\<close>).
  The default prompt is a literal of the script whose characters lie outside the range of
  \<^typ>\<open>char\<close>; it is carried here.
\<close>

record platform =
  getenv :: "string \<rightharpoonup> string"
  perf_counter :: "nat \<Rightarrow> real"
  urlopen :: "nat \<Rightarrow> http_request \<Rightarrow> urlopen_outcome"
  json_loads :: loads_fn
  Request_init :: "string \<Rightarrow> py_exception option"
  py_int :: "string \<Rightarrow> int option"
  py_float :: "string \<Rightarrow> real option"
  default_prompt :: string

section \<open>Configuration\<close>

text \<open>
  Lines 24 to 48. \<^verbatim>\<open>os.getenv(name, default)\<close> yields the default only for a variable
  that is not set.
\<close>

definition env_str :: "platform \<Rightarrow> string \<Rightarrow> string option \<Rightarrow> bool \<Rightarrow> py_exception + string" where
  "env_str P name dflt required =
     (let value = (case getenv P name of None \<Rightarrow> dflt | Some s \<Rightarrow> Some s) in
      if required \<and> (value = None \<or> value = Some '''') then
        Inl (Exc ValueError (''Missing required environment variable: '' @ name))
      else Inr (case value of None \<Rightarrow> '''' | Some s \<Rightarrow> s))"

definition env_int :: "platform \<Rightarrow> string \<Rightarrow> int \<Rightarrow> py_exception + int" where
  "env_int P name dflt =
     (case getenv P name of
        None \<Rightarrow> Inr dflt
      | Some value \<Rightarrow>
          if value = '''' then Inr dflt
          else (case py_int P value of
                  Some i \<Rightarrow> Inr i
                | None \<Rightarrow> Inl (Exc ValueError (name @ '' must be an integer, got: '' @ value))))"

definition env_float :: "platform \<Rightarrow> string \<Rightarrow> real \<Rightarrow> py_exception + real" where
  "env_float P name dflt =
     (case getenv P name of
        None \<Rightarrow> Inr dflt
      | Some value \<Rightarrow>
          if value = '''' then Inr dflt
          else (case py_float P value of
                  Some x \<Rightarrow> Inr x
                | None \<Rightarrow> Inl (Exc ValueError (name @ '' must be a number, got: '' @ value))))"

section \<open>The request executor\<close>

text \<open>The dict returned by \<^verbatim>\<open>run_single_request\<close>.\<close>

record request_result =
  index :: int
  ok :: bool
  duration :: real
  chars :: int
  error :: string

text \<open>\<^verbatim>\<open>resp.read()\<close>, decoded: the rest of the body, or the exception of the first failing read.\<close>

fun read_all :: "read_event list \<Rightarrow> py_exception + string" where
  "read_all [] = Inr []"
| "read_all (Inl e # rest) = Inl e"
| "read_all (Inr line # rest) =
     (case read_all rest of Inl e \<Rightarrow> Inl e | Inr s \<Rightarrow> Inr (line @ s))"

text \<open>
  The message of the second and third \<^verbatim>\<open>except\<close> clause, for an exception raised
  inside the \<^verbatim>\<open>try\<close> block that is not an \<open>HTTPError\<close>.
\<close>

definition except_message :: "py_exception \<Rightarrow> string" where
  "except_message e =
     (if exc_cls e \<in> {URLError, SocketTimeout, TimeoutError}
      then ''Network/Timeout error: '' @ exc_str e
      else ''Unexpected error: '' @ exc_str e)"

text \<open>
  The body of the \<^verbatim>\<open>with\<close> statement, up to the text handed to \<^verbatim>\<open>len\<close>: a status
  other than 200 reads the body and raises \<open>RuntimeError\<close>.
\<close>

definition with_body :: "loads_fn \<Rightarrow> int \<Rightarrow> read_event list \<Rightarrow> py_exception + string" where
  "with_body loads status_code body =
     (if status_code \<noteq> 200 then
        (case read_all body of
           Inl e \<Rightarrow> Inl e
         | Inr err_body \<Rightarrow>
             Inl (Exc RuntimeError (''HTTP '' @ str_int status_code @ '': '' @ err_body)))
      else parse_sse_stream loads body)"

text \<open>
  \<open>Inl\<close> is an exception that leaves the function: the one raised by the constructor
  of the request, before the \<^verbatim>\<open>try\<close>, and the one raised by \<^verbatim>\<open>exc.read()\<close> inside
  the handler of \<open>HTTPError\<close>, which no clause of the same \<^verbatim>\<open>try\<close> catches.
\<close>

definition run_single_request ::
  "platform \<Rightarrow> int \<Rightarrow> int \<Rightarrow> string \<Rightarrow> string \<Rightarrow> string \<Rightarrow> string \<Rightarrow> int \<Rightarrow> int \<Rightarrow> real
     \<Rightarrow> world \<Rightarrow> (py_exception + request_result) \<times> world" where
  "run_single_request P idx total_requests api_url api_key model prompt timeout_seconds max_tokens
       temperature w =
     (case Request_init P api_url of
        Some e \<Rightarrow> (Inl e, w)
      | None \<Rightarrow>
         (let req = \<lparr>req_url = api_url, req_bearer = api_key, req_model = model,
                     req_prompt = prompt, req_max_tokens = max_tokens,
                     req_temperature = temperature, req_timeout = timeout_seconds\<rparr>;
              started_at = perf_counter P (ticks w);
              w1 = w\<lparr>ticks := Suc (ticks w)\<rparr>;
              outcome = urlopen P (calls w1) req;
              w2 = w1\<lparr>calls := Suc (calls w1)\<rparr>;
              elapsed = perf_counter P (ticks w2) - started_at;
              w3 = w2\<lparr>ticks := Suc (ticks w2)\<rparr>;
              failed = (\<lambda>message.
                (Inr \<lparr>index = idx, ok = False, duration = elapsed, chars = 0, error = message\<rparr>,
                 w3))
          in case outcome of
               Returns status_code body \<Rightarrow>
                 (case with_body (json_loads P) status_code body of
                    Inr response_text \<Rightarrow>
                      (Inr \<lparr>index = idx, ok = True, duration = elapsed,
                            chars = int (length response_text), error = ''''\<rparr>, w3)
                  | Inl e \<Rightarrow> failed (except_message e))
             | RaisesHTTPError code rd \<Rightarrow>
                 (case rd of
                    Inl e \<Rightarrow> (Inl e, w2)
                  | Inr err_body \<Rightarrow>
                      failed (''HTTPError '' @ str_int code @ '': '' @ err_body))
             | Raises e \<Rightarrow> failed (except_message e)))"

section \<open>Persisting the report\<close>










section \<open>The benchmark runner\<close>

text \<open>The local variables of \<^verbatim>\<open>main\<close> that reach the report.\<close>

record run_vars =
  api_url :: string
  api_key :: string
  model :: string
  prompt :: string
  request_count :: int
  timeout_seconds :: int
  max_runtime_seconds :: int
  max_tokens :: int
  pause_seconds :: real
  temperature :: real
  results :: "request_result list"
  attempted :: int
  success_count :: int
  failure_count :: int
  availability :: real
  total_runtime :: real
  avg_duration :: "real option"
  fastest :: "real option"
  slowest :: "real option"
  status :: string
  error_message :: string
  exit_code :: int

definition default_api_url :: string where
  "default_api_url = ''https://api.openai.com/v1/chat/completions''"

definition initial_vars :: "platform \<Rightarrow> run_vars" where
  "initial_vars P =
     \<lparr>api_url = default_api_url, api_key = '''', model = ''gpt-4o-mini'',
      prompt = default_prompt P, request_count = 5, timeout_seconds = 120,
      max_runtime_seconds = 0, max_tokens = 128, pause_seconds = 0, temperature = 1 / 10,
      results = [], attempted = 0, success_count = 0, failure_count = 0, availability = 0,
      total_runtime = 0, avg_duration = None, fastest = None, slowest = None,
      status = ''FAILED'', error_message = '''', exit_code = 1\<rparr>"

text \<open>
  A statement of the \<^verbatim>\<open>try\<close> block either raises, leaving the variables as they
  are, or assigns. \<open>assign r upd k v\<close> runs the rest \<open>k\<close> after the assignment.
\<close>

definition assign ::
  "(py_exception + 'a) \<Rightarrow> ('a \<Rightarrow> run_vars \<Rightarrow> run_vars)
     \<Rightarrow> (run_vars \<Rightarrow> py_exception option \<times> run_vars) \<Rightarrow> run_vars
     \<Rightarrow> py_exception option \<times> run_vars" where
  "assign r upd k v = (case r of Inl e \<Rightarrow> (Some e, v) | Inr a \<Rightarrow> k (upd a v))"

definition validate :: "run_vars \<Rightarrow> py_exception option" where
  "validate v =
     (if request_count v \<le> 0 then Some (Exc ValueError ''OPENAI_REQUEST_COUNT must be > 0'')
      else if timeout_seconds v \<le> 0 then
        Some (Exc ValueError ''OPENAI_REQUEST_TIMEOUT_SECONDS must be > 0'')
      else if max_tokens v \<le> 0 then Some (Exc ValueError ''OPENAI_MAX_TOKENS must be > 0'')
      else if max_runtime_seconds v < 0 then
        Some (Exc ValueError ''OPENAI_MAX_RUNTIME_SECONDS must be >= 0'')
      else if pause_seconds v < 0 then
        Some (Exc ValueError ''OPENAI_REQUEST_PAUSE_SECONDS must be >= 0'')
      else None)"

text \<open>Lines 305 to 325: the settings are read in this order, then validated.\<close>

definition read_settings :: "platform \<Rightarrow> run_vars \<Rightarrow> py_exception option \<times> run_vars" where
  "read_settings P =
     assign (env_str P ''OPENAI_API_URL'' (Some default_api_url) False)
       (\<lambda>a v. v\<lparr>api_url := a\<rparr>)
    (assign (env_str P ''OPENAI_API_KEY'' None True)
       (\<lambda>a v. v\<lparr>api_key := a\<rparr>)
    (assign (env_str P ''OPENAI_MODEL'' (Some ''gpt-4o-mini'') False)
       (\<lambda>a v. v\<lparr>model := a\<rparr>)
    (assign (env_str P ''OPENAI_PROMPT'' (Some (default_prompt P)) False)
       (\<lambda>a v. v\<lparr>prompt := a\<rparr>)
    (assign (env_int P ''OPENAI_REQUEST_COUNT'' 5)
       (\<lambda>a v. v\<lparr>request_count := a\<rparr>)
    (assign (env_int P ''OPENAI_REQUEST_TIMEOUT_SECONDS'' 120)
       (\<lambda>a v. v\<lparr>timeout_seconds := a\<rparr>)
    (assign (env_int P ''OPENAI_MAX_RUNTIME_SECONDS'' 0)
       (\<lambda>a v. v\<lparr>max_runtime_seconds := a\<rparr>)
    (assign (env_int P ''OPENAI_MAX_TOKENS'' 128)
       (\<lambda>a v. v\<lparr>max_tokens := a\<rparr>)
    (assign (env_float P ''OPENAI_REQUEST_PAUSE_SECONDS'' 0)
       (\<lambda>a v. v\<lparr>pause_seconds := a\<rparr>)
    (assign (env_float P ''OPENAI_TEMPERATURE'' (1 / 10))
       (\<lambda>a v. v\<lparr>temperature := a\<rparr>)
    (\<lambda>v. (validate v, v)))))))))))"

text \<open>
  The \<^verbatim>\<open>for\<close> loop of lines 339 to 362, entered at index \<open>idx\<close> with the results
  appended so far. It ends when the indices are used up, when the budget is spent, or
  with the exception that left \<^verbatim>\<open>run_single_request\<close>; the list of results is
  mutated in place, so the entries appended before an exception stay.
\<close>

function bench_loop ::
  "platform \<Rightarrow> run_vars \<Rightarrow> real \<Rightarrow> int \<Rightarrow> request_result list \<Rightarrow> world
     \<Rightarrow> py_exception option \<times> request_result list \<times> world" where
  "bench_loop P v suite_start idx rs w =
     (if request_count v < idx then (None, rs, w)
      else
        let elapsed = perf_counter P (ticks w) - suite_start;
            w1 = w\<lparr>ticks := Suc (ticks w)\<rparr>
        in if 0 < max_runtime_seconds v \<and> real_of_int (max_runtime_seconds v) \<le> elapsed
           then (None, rs, w1)
           else
             (case run_single_request P idx (request_count v) (api_url v) (api_key v)
                     (model v) (prompt v) (timeout_seconds v) (max_tokens v)
                     (temperature v) w1 of
                (Inl e, w2) \<Rightarrow> (Some e, rs, w2)
              | (Inr result, w2) \<Rightarrow>
                  bench_loop P v suite_start (idx + 1) (rs @ [result])
                    (if 0 < pause_seconds v \<and> idx \<noteq> request_count v
                     then w2\<lparr>slept := slept w2 @ [pause_seconds v]\<rparr> else w2)))"
  by pat_completeness auto
termination
  by (relation "measure (\<lambda>(P, v, suite_start, idx, rs, w). nat (request_count v + 1 - idx))")
    auto

declare bench_loop.simps [simp del]

text \<open>\<^verbatim>\<open>statistics.mean\<close>, \<^verbatim>\<open>min\<close> and \<^verbatim>\<open>max\<close> of a non-empty list.\<close>

definition mean :: "real list \<Rightarrow> real" where
  "mean xs = sum_list xs / real (length xs)"

definition py_min :: "real list \<Rightarrow> real" where
  "py_min xs = fold min (tl xs) (hd xs)"

definition py_max :: "real list \<Rightarrow> real" where
  "py_max xs = fold max (tl xs) (hd xs)"

text \<open>Lines 364 to 403: the summary and the classification of the run.\<close>

definition summarize :: "real \<Rightarrow> run_vars \<Rightarrow> run_vars" where
  "summarize total_time v =
     (let n = int (length (results v));
          success_durations = map duration (filter ok (results v));
          s = int (length success_durations);
          f = n - s;
          v1 = v\<lparr>total_runtime := total_time, attempted := n, success_count := s,
                 failure_count := f,
                 availability := (if n \<noteq> 0 then real_of_int s / real_of_int n * 100 else 0),
                 avg_duration :=
                   (if success_durations \<noteq> [] then Some (mean success_durations) else None),
                 fastest :=
                   (if success_durations \<noteq> [] then Some (py_min success_durations) else None),
                 slowest :=
                   (if success_durations \<noteq> [] then Some (py_max success_durations) else None)\<rparr>
      in if n = 0 then
           v1\<lparr>status := ''FAILED'', error_message := ''No request attempted.'', exit_code := 1\<rparr>
         else if s = 0 then
           v1\<lparr>status := ''FAILED'', error_message := ''All requests failed.'', exit_code := 1\<rparr>
         else if 0 < f then v1\<lparr>status := ''PARTIAL_SUCCESS'', exit_code := 0\<rparr>
         else v1\<lparr>status := ''SUCCESS'', exit_code := 0\<rparr>)"

text \<open>
  The two handlers of the \<^verbatim>\<open>try\<close> of \<^verbatim>\<open>main\<close>: \<open>ValueError\<close> and its
  subclasses, then every other exception.
\<close>

definition handle_exception :: "py_exception \<Rightarrow> run_vars \<Rightarrow> run_vars" where
  "handle_exception e v =
     (if exc_cls e \<in> {ValueError, JSONDecodeError} then
        v\<lparr>error_message := exc_str e, status := ''CONFIG_ERROR'', exit_code := 2\<rparr>
      else
        v\<lparr>error_message := ''Unexpected runtime error: '' @ exc_str e,
          status := ''RUNTIME_ERROR'', exit_code := 1\<rparr>)"

text \<open>Lines 280 to 413: the variables when the \<^verbatim>\<open>try\<close> statement is left.\<close>

definition run_benchmark :: "platform \<Rightarrow> world \<Rightarrow> run_vars \<times> world" where
  "run_benchmark P w =
     (case read_settings P (initial_vars P) of
        (Some e, v) \<Rightarrow> (handle_exception e v, w)
      | (None, v) \<Rightarrow>
         (let suite_start = perf_counter P (ticks w);
              w1 = w\<lparr>ticks := Suc (ticks w)\<rparr>
          in case bench_loop P v suite_start 1 [] w1 of
               (Some e, rs, w2) \<Rightarrow> (handle_exception e (v\<lparr>results := rs\<rparr>), w2)
             | (None, rs, w2) \<Rightarrow>
                 (summarize (perf_counter P (ticks w2) - suite_start) (v\<lparr>results := rs\<rparr>),
                  w2\<lparr>ticks := Suc (ticks w2)\<rparr>)))"


section \<open>The decoder as the specification describes it\<close>



text \<open>
  The decoder strips a line before it looks for the prefix, and the frames of the
  specification are read the same way: a frame is a line that, stripped, starts with
  \<open>data:\<close>; its payload is the rest, stripped.
\<close>

definition is_data_frame :: "string \<Rightarrow> bool" where
  "is_data_frame line = startswith (strip line) ''data:''"

definition frame_payload :: "string \<Rightarrow> string" where
  "frame_payload line = strip (drop 5 (strip line))"




section \<open>The delimited region as the specification describes it\<close>


section \<open>Concrete inputs for the examples\<close>

text \<open>
  A stand-in for \<^verbatim>\<open>json.loads\<close> that knows the texts of a table and raises
  \<open>JSONDecodeError\<close> on every other text.
\<close>

definition loads_table :: "(string \<times> json) list \<Rightarrow> loads_fn" where
  "loads_table tbl data =
     (case map_of tbl data of
        Some v \<Rightarrow> Inr v
      | None \<Rightarrow> Inl (Exc JSONDecodeError ''Expecting value''))"

definition hi_text :: string where
  \<open>hi_text = ''{"choices":[{"delta":{"content":"Hi"}}]}''\<close>

definition hi_json :: json where
  "hi_json =
     JObject [(''choices'',
       JArray [JObject [(''delta'', JObject [(''content'', JString ''Hi'')])]])]"


text \<open>
  A platform for the examples: no environment variable is set, the clock advances by one
  second at every reading, every request is answered with status 200 and an empty body,
  every URL is accepted, and the number parsers know the text \<open>2\<close>. The examples
  change single fields of it.
\<close>

definition base_platform :: platform where
  "base_platform =
     \<lparr>getenv = Map.empty,
      perf_counter = real,
      urlopen = (\<lambda>k req. Returns 200 []),
      json_loads = loads_table [(hi_text, hi_json)],
      Request_init = (\<lambda>url. None),
      py_int = (\<lambda>s. if s = ''2'' then Some 2 else None),
      py_float = (\<lambda>s. if s = ''2'' then Some 2 else None),
      default_prompt = ''ping''\<rparr>"

definition world0 :: world where
  "world0 = \<lparr>ticks = 0, calls = 0, slept = [], files = Map.empty\<rparr>"

text \<open>A response with status 200 whose body is the frame of \<open>Hi\<close> followed by the frame \<open>data: 5\<close>.\<close>

definition int_frame_platform :: platform where
  "int_frame_platform =
     base_platform
       \<lparr>json_loads := loads_table [(''5'', JInt 5), (hi_text, hi_json)],
        urlopen := (\<lambda>k req.
          Returns 200 (map Inr [''data: '' @ hi_text @ [CHR 0x0A]]
            @ Inr (''data: 5'' @ [CHR 0x0A]) # []))\<rparr>"

text \<open>A response returned with status 202, and an \<open>HTTPError\<close> with code 503 whose body can be read.\<close>

definition accepted_platform :: platform where
  "accepted_platform = base_platform\<lparr>urlopen := (\<lambda>k req. Returns 202 [Inr ''queued''])\<rparr>"

definition unavailable_platform :: platform where
  "unavailable_platform =
     base_platform\<lparr>urlopen := (\<lambda>k req. RaisesHTTPError 503 (Inr ''down''))\<rparr>"

text \<open>
  The server answers with status 500 and then stalls: \<^verbatim>\<open>urlopen\<close> raises
  \<open>HTTPError\<close>, and reading the error body runs into the socket timeout. The credential
  is set, so that the settings are read without error.
\<close>

definition stalled_platform :: platform where
  "stalled_platform =
     base_platform
       \<lparr>getenv := [''OPENAI_API_KEY'' \<mapsto> ''k''],
        urlopen := (\<lambda>k req. RaisesHTTPError 500 (Inl (Exc SocketTimeout ''timed out'')))\<rparr>"


text \<open>The credential is set and the model name is set to the empty string.\<close>

definition empty_model_platform :: platform where
  "empty_model_platform =
     base_platform\<lparr>getenv := [''OPENAI_API_KEY'' \<mapsto> ''k'', ''OPENAI_MODEL'' \<mapsto> '''']\<rparr>"

text \<open>
  Five requests are planned (the default), the budget is 2 seconds, and the clock advances
  by a third of a second at every reading: the budget is spent at the boundary before the
  third request.
\<close>

definition budget_platform :: platform where
  "budget_platform =
     base_platform
       \<lparr>getenv := [''OPENAI_API_KEY'' \<mapsto> ''k'', ''OPENAI_MAX_RUNTIME_SECONDS'' \<mapsto> ''2''],
        perf_counter := (\<lambda>k. real k / 3)\<rparr>"

definition budget_vars :: run_vars where
  "budget_vars = (initial_vars budget_platform)\<lparr>api_key := ''k'', max_runtime_seconds := 2\<rparr>"

definition success_result :: "int \<Rightarrow> request_result" where
  "success_result i = \<lparr>index = i, ok = True, duration = 1 / 3, chars = 0, error = ''''\<rparr>"



section \<open>Properties of the stream decoder\<close>








lemma sse_loop_skip:
  "line_action loads line = Continue \<Longrightarrow>
     sse_loop loads (before @ Inr line # after) acc = sse_loop loads (before @ after) acc"
proof (induction before arbitrary: acc)
  case Nil
  then show ?case by simp
next
  case (Cons ev before)
  then show ?case
    by (cases ev) (auto split: action.splits)
qed


lemma strip_data_hi: "strip (''data: '' @ hi_text @ [CHR 0x0A]) = ''data: '' @ hi_text"
  by (simp add: strip_def lstrip_def rstrip_def is_space_def hi_text_def)

lemma hi_line_action:
  "loads hi_text = Inr hi_json \<Longrightarrow>
     line_action loads (''data: '' @ hi_text @ [CHR 0x0A]) = Emit ''Hi''"
  apply (simp add: line_action_def strip_data_hi startswith_def)
  apply (simp add: strip_def lstrip_def rstrip_def is_space_def hi_text_def hi_json_def)
  done





text \<open>
  Claim C2. A frame whose payload makes \<^verbatim>\<open>json.loads\<close> raise \<open>JSONDecodeError\<close> (the
  empty payload included; the sentinel is recognised before any parsing) is skipped:
  the decoder does on the stream what it does on the stream without that line, so no
  exception comes from the line and the tokens of the frames around it are kept.
\<close>

theorem malformed_frame_is_skipped:
  assumes "is_data_frame line" and "frame_payload line \<noteq> ''[DONE]''"
    and "loads (frame_payload line) = Inl e" and "exc_cls e = JSONDecodeError"
  shows "parse_sse_stream loads (before @ Inr line # after)
           = parse_sse_stream loads (before @ after)"
proof -
  from assms(1) have "line \<noteq> []"
    by (auto simp: is_data_frame_def startswith_def strip_def lstrip_def rstrip_def)
  with assms have "line_action loads line = Continue"
    by (simp add: line_action_def is_data_frame_def frame_payload_def)
  then show ?thesis by (simp add: parse_sse_stream_def sse_loop_skip)
qed

theorem malformed_frame_is_skipped_witness:
  "is_data_frame (''data:'' @ [CHR 0x0A])
   \<and> frame_payload (''data:'' @ [CHR 0x0A]) = ''''
   \<and> loads_table [(hi_text, hi_json)] (frame_payload (''data:'' @ [CHR 0x0A]))
         = Inl (Exc JSONDecodeError ''Expecting value'')
   \<and> parse_sse_stream (loads_table [(hi_text, hi_json)])
         ([Inr (''data: '' @ hi_text @ [CHR 0x0A])] @ Inr (''data:'' @ [CHR 0x0A])
            # [Inr (''data: '' @ hi_text @ [CHR 0x0A])])
       = Inr ''HiHi''"
proof -
  let ?L = "loads_table [(hi_text, hi_json)]"
  let ?hi = "''data: '' @ hi_text @ [CHR 0x0A]"
  have fr: "is_data_frame (''data:'' @ [CHR 0x0A])"
    by (simp add: is_data_frame_def strip_def lstrip_def rstrip_def is_space_def startswith_def)
  have pl: "frame_payload (''data:'' @ [CHR 0x0A]) = ''''"
    by (simp add: frame_payload_def strip_def lstrip_def rstrip_def is_space_def)
  have ld: "?L (frame_payload (''data:'' @ [CHR 0x0A])) = Inl (Exc JSONDecodeError ''Expecting value'')"
    unfolding pl by (simp add: loads_table_def hi_text_def)
  have hi: "line_action ?L ?hi = Emit ''Hi''"
    by (rule hi_line_action) (simp add: loads_table_def)
  have rest: "parse_sse_stream ?L ([Inr ?hi] @ [Inr ?hi]) = Inr ''HiHi''"
    using hi by (simp add: parse_sse_stream_def)
  from malformed_frame_is_skipped [of "''data:'' @ [CHR 0x0A]" ?L
      "Exc JSONDecodeError ''Expecting value''" "[Inr ?hi]" "[Inr ?hi]"] fr pl ld rest
  show ?thesis by simp
qed

section \<open>Properties of the request executor\<close>

lemma sse_loop_reaches:
  "\<forall>l\<in>set before. line_action loads l \<noteq> Break \<and> (\<forall>e. line_action loads l \<noteq> Raise e) \<Longrightarrow>
     \<exists>acc'. sse_loop loads (map Inr before @ rest) acc = sse_loop loads rest acc'"
proof (induction before arbitrary: acc)
  case Nil
  then show ?case by auto
next
  case (Cons l before)
  then show ?case by (cases "line_action loads l") auto
qed

lemma py_get_not_object:
  "\<forall>kvs. v \<noteq> JObject kvs \<Longrightarrow> py_get v key dflt = Inl (Exc AttributeError (no_attribute_get v))"
  by (cases v) auto

text \<open>
  Claim C10. A frame whose payload \<^verbatim>\<open>json.loads\<close> decodes to a value that is not an
  object (such as \<open>5\<close> or \<open>[1]\<close>) is not skipped: when the decoder reaches it, the
  decoder raises \<open>AttributeError\<close>, and the executor, given status 200 and that body,
  returns a failed result whose message starts with \<open>Unexpected error: \<close>.
\<close>

theorem non_object_payload_fails_request:
  assumes "is_data_frame line" and "frame_payload line \<noteq> ''[DONE]''"
    and "json_loads P (frame_payload line) = Inr v" and "\<forall>kvs. v \<noteq> JObject kvs"
    and "\<forall>l\<in>set before. line_action (json_loads P) l \<noteq> Break
           \<and> (\<forall>e. line_action (json_loads P) l \<noteq> Raise e)"
    and "Request_init P url = None"
    and "urlopen P (calls w)
           \<lparr>req_url = url, req_bearer = key, req_model = m, req_prompt = p,
            req_max_tokens = mt, req_temperature = temp, req_timeout = tmo\<rparr>
         = Returns 200 (map Inr before @ Inr line # after)"
  shows "parse_sse_stream (json_loads P) (map Inr before @ Inr line # after)
           = Inl (Exc AttributeError (no_attribute_get v))
         \<and> run_single_request P idx n url key m p tmo mt temp w
           = (Inr \<lparr>index = idx, ok = False,
                   duration = perf_counter P (Suc (ticks w)) - perf_counter P (ticks w),
                   chars = 0,
                   error = ''Unexpected error: '' @ no_attribute_get v\<rparr>,
              w\<lparr>ticks := Suc (Suc (ticks w)), calls := Suc (calls w)\<rparr>)"
proof -
  from assms(1) have "line \<noteq> []"
    by (auto simp: is_data_frame_def startswith_def strip_def lstrip_def rstrip_def)
  with assms(1-4) have la: "line_action (json_loads P) line
      = Raise (Exc AttributeError (no_attribute_get v))"
    by (simp add: line_action_def is_data_frame_def frame_payload_def py_get_not_object)
  from sse_loop_reaches [OF assms(5)] obtain acc'
    where "sse_loop (json_loads P) (map Inr before @ Inr line # after) []
             = sse_loop (json_loads P) (Inr line # after) acc'"
    by blast
  with la have p: "parse_sse_stream (json_loads P) (map Inr before @ Inr line # after)
      = Inl (Exc AttributeError (no_attribute_get v))"
    by (simp add: parse_sse_stream_def)
  then have "with_body (json_loads P) 200 (map Inr before @ Inr line # after)
      = Inl (Exc AttributeError (no_attribute_get v))"
    by (simp add: with_body_def)
  with assms(6,7) have "run_single_request P idx n url key m p tmo mt temp w
           = (Inr \<lparr>index = idx, ok = False,
                   duration = perf_counter P (Suc (ticks w)) - perf_counter P (ticks w),
                   chars = 0,
                   error = ''Unexpected error: '' @ no_attribute_get v\<rparr>,
              w\<lparr>ticks := Suc (Suc (ticks w)), calls := Suc (calls w)\<rparr>)"
    by (simp add: run_single_request_def except_message_def)
  with p show ?thesis by simp
qed

theorem non_object_payload_fails_request_witness:
  "is_data_frame (''data: 5'' @ [CHR 0x0A])
   \<and> frame_payload (''data: 5'' @ [CHR 0x0A]) = ''5''
   \<and> json_loads int_frame_platform ''5'' = Inr (JInt 5)
   \<and> parse_sse_stream (json_loads int_frame_platform)
         (map Inr [''data: '' @ hi_text @ [CHR 0x0A]] @ Inr (''data: 5'' @ [CHR 0x0A]) # [])
       = Inl (Exc AttributeError (no_attribute_get (JInt 5)))
   \<and> run_single_request int_frame_platform 1 1 ''https://h/v1'' ''k'' ''m'' ''p'' 120 128 (1 / 10)
         world0
       = (Inr \<lparr>index = 1, ok = False, duration = 1, chars = 0,
               error = ''Unexpected error: '' @ no_attribute_get (JInt 5)\<rparr>,
          world0\<lparr>ticks := 2, calls := 1\<rparr>)"
proof -
  let ?P = int_frame_platform
  let ?hi = "''data: '' @ hi_text @ [CHR 0x0A]"
  let ?five = "''data: 5'' @ [CHR 0x0A]"
  have fr: "is_data_frame ?five"
    by (simp add: is_data_frame_def strip_def lstrip_def rstrip_def is_space_def startswith_def)
  have pl: "frame_payload ?five = ''5''"
    by (simp add: frame_payload_def strip_def lstrip_def rstrip_def is_space_def)
  have ld: "json_loads ?P ''5'' = Inr (JInt 5)"
    by (simp add: int_frame_platform_def base_platform_def loads_table_def)
  have hi: "line_action (json_loads ?P) ?hi = Emit ''Hi''"
    by (rule hi_line_action)
      (simp add: int_frame_platform_def base_platform_def loads_table_def hi_text_def)
  have before: "\<forall>l\<in>set [?hi]. line_action (json_loads ?P) l \<noteq> Break
      \<and> (\<forall>e. line_action (json_loads ?P) l \<noteq> Raise e)"
    using hi by simp
  have ri: "Request_init ?P ''https://h/v1'' = None"
    by (simp add: int_frame_platform_def base_platform_def)
  have uo: "urlopen ?P (calls world0)
           \<lparr>req_url = ''https://h/v1'', req_bearer = ''k'', req_model = ''m'', req_prompt = ''p'',
            req_max_tokens = 128, req_temperature = 1 / 10, req_timeout = 120\<rparr>
         = Returns 200 (map Inr [?hi] @ Inr ?five # [])"
    by (simp add: int_frame_platform_def base_platform_def)
  have clock: "perf_counter ?P (Suc (ticks world0)) - perf_counter ?P (ticks world0) = 1"
    by (simp add: int_frame_platform_def base_platform_def world0_def)
  have w: "world0\<lparr>ticks := Suc (Suc (ticks world0)), calls := Suc (calls world0)\<rparr>
      = world0\<lparr>ticks := 2, calls := 1\<rparr>"
    by (simp add: world0_def)
  from non_object_payload_fails_request [of ?five ?P "JInt 5" "[?hi]" "''https://h/v1''"
      world0 "''k''" "''m''" "''p''" 128 "1 / 10" 120 "[]" 1 1] fr pl ld before ri uo
  show ?thesis by (simp add: clock w)
qed

text \<open>
  Claim C8, as the code has it. For a status other than 200 the executor reads the whole
  body and returns a failed result with no characters. When \<^verbatim>\<open>urlopen\<close> returns the
  response, the message is \<open>Unexpected error: HTTP <status>: <body>\<close>: the
  \<open>RuntimeError\<close> raised for the status is caught by the last handler and carries the
  prefix of the unexpected errors. When \<^verbatim>\<open>urlopen\<close> raises \<open>HTTPError\<close> and the body
  can be read, the message is \<open>HTTPError <code>: <body>\<close>, and no message of the other
  two kinds starts with \<open>HTTPError \<close>.
\<close>

theorem non_200_status_is_reported:
  assumes "Request_init P url = None"
    and "req = \<lparr>req_url = url, req_bearer = key, req_model = m, req_prompt = p,
            req_max_tokens = mt, req_temperature = temp, req_timeout = tmo\<rparr>"
    and "w' = w\<lparr>ticks := Suc (Suc (ticks w)), calls := Suc (calls w)\<rparr>"
    and "d = perf_counter P (Suc (ticks w)) - perf_counter P (ticks w)"
  shows "(urlopen P (calls w) req = Returns status_code body \<and> status_code \<noteq> 200
            \<and> read_all body = Inr err_body \<longrightarrow>
          run_single_request P idx n url key m p tmo mt temp w
            = (Inr \<lparr>index = idx, ok = False, duration = d, chars = 0,
                    error = ''Unexpected error: HTTP '' @ str_int status_code @ '': ''
                      @ err_body\<rparr>, w'))
       \<and> (urlopen P (calls w) req = RaisesHTTPError code (Inr err_body) \<longrightarrow>
          run_single_request P idx n url key m p tmo mt temp w
            = (Inr \<lparr>index = idx, ok = False, duration = d, chars = 0,
                    error = ''HTTPError '' @ str_int code @ '': '' @ err_body\<rparr>, w'))
       \<and> (\<forall>e. take 10 (except_message e) \<noteq> ''HTTPError '')"
  using assms
  by (simp add: run_single_request_def with_body_def except_message_def)

lemma str_int_202: "str_int 202 = ''202''"
  by (simp add: str_int_def digit_char_def)

lemma str_int_503: "str_int 503 = ''503''"
  by (simp add: str_int_def digit_char_def)

theorem non_200_status_is_reported_witness:
  "run_single_request accepted_platform 1 1 ''https://h/v1'' ''k'' ''m'' ''p'' 120 128 (1 / 10) world0
     = (Inr \<lparr>index = 1, ok = False, duration = 1, chars = 0,
             error = ''Unexpected error: HTTP 202: queued''\<rparr>, world0\<lparr>ticks := 2, calls := 1\<rparr>)
   \<and> run_single_request unavailable_platform 1 1 ''https://h/v1'' ''k'' ''m'' ''p'' 120 128 (1 / 10)
         world0
     = (Inr \<lparr>index = 1, ok = False, duration = 1, chars = 0,
             error = ''HTTPError 503: down''\<rparr>, world0\<lparr>ticks := 2, calls := 1\<rparr>)"
proof -
  let ?req = "\<lparr>req_url = ''https://h/v1'', req_bearer = ''k'', req_model = ''m'',
      req_prompt = ''p'', req_max_tokens = 128, req_temperature = 1 / 10, req_timeout = 120\<rparr>"
  let ?w' = "world0\<lparr>ticks := Suc (Suc (ticks world0)), calls := Suc (calls world0)\<rparr>"
  have w: "?w' = world0\<lparr>ticks := 2, calls := 1\<rparr>"
    by (simp add: world0_def)
  have a: "Request_init accepted_platform ''https://h/v1'' = None"
    "urlopen accepted_platform (calls world0) ?req = Returns 202 [Inr ''queued'']"
    "read_all [Inr ''queued''] = Inr ''queued''"
    "perf_counter accepted_platform (Suc (ticks world0))
       - perf_counter accepted_platform (ticks world0) = 1"
    by (simp_all add: accepted_platform_def base_platform_def world0_def)
  have u: "Request_init unavailable_platform ''https://h/v1'' = None"
    "urlopen unavailable_platform (calls world0) ?req = RaisesHTTPError 503 (Inr ''down'')"
    "perf_counter unavailable_platform (Suc (ticks world0))
       - perf_counter unavailable_platform (ticks world0) = 1"
    by (simp_all add: unavailable_platform_def base_platform_def world0_def)
  from non_200_status_is_reported [where P = accepted_platform and url = "''https://h/v1''"
      and req = ?req and w = world0 and w' = ?w' and d = 1 and status_code = 202
      and body = "[Inr ''queued'']" and err_body = "''queued''" and idx = 1 and n = 1]
    a w
  have first: "run_single_request accepted_platform 1 1 ''https://h/v1'' ''k'' ''m'' ''p'' 120 128
      (1 / 10) world0
     = (Inr \<lparr>index = 1, ok = False, duration = 1, chars = 0,
             error = ''Unexpected error: HTTP 202: queued''\<rparr>, world0\<lparr>ticks := 2, calls := 1\<rparr>)"
    by (simp add: str_int_202)
  from non_200_status_is_reported [where P = unavailable_platform and url = "''https://h/v1''"
      and req = ?req and w = world0 and w' = ?w' and d = 1 and code = 503
      and err_body = "''down''" and idx = 1 and n = 1]
    u w
  have second: "run_single_request unavailable_platform 1 1 ''https://h/v1'' ''k'' ''m'' ''p'' 120
      128 (1 / 10) world0
     = (Inr \<lparr>index = 1, ok = False, duration = 1, chars = 0,
             error = ''HTTPError 503: down''\<rparr>, world0\<lparr>ticks := 2, calls := 1\<rparr>)"
    by (simp add: str_int_503)
  from first second show ?thesis by simp
qed

text \<open>
  The claim as stated fails: a response returned with status 202 and body \<open>queued\<close>
  yields a message that is not \<open>HTTP 202: queued\<close> and that starts like the message of
  an unexpected error.
\<close>

theorem http_status_message_counterexample:
  "run_single_request accepted_platform 1 1 ''https://h/v1'' ''k'' ''m'' ''p'' 120 128 (1 / 10) world0
     = (Inr \<lparr>index = 1, ok = False, duration = 1, chars = 0,
             error = ''Unexpected error: HTTP 202: queued''\<rparr>, world0\<lparr>ticks := 2, calls := 1\<rparr>)
   \<and> ''Unexpected error: HTTP 202: queued'' \<noteq> ''HTTP 202: queued''
   \<and> take 18 ''Unexpected error: HTTP 202: queued''
       = take 18 (except_message (Exc OtherError ''boom''))"
  by (simp add: run_single_request_def with_body_def except_message_def str_int_202
      accepted_platform_def base_platform_def world0_def)

lemma run_single_request_returns:
  assumes "Request_init P url = None"
    and "\<forall>code e. urlopen P (calls w)
           \<lparr>req_url = url, req_bearer = key, req_model = m, req_prompt = p,
            req_max_tokens = mt, req_temperature = temp, req_timeout = tmo\<rparr>
         \<noteq> RaisesHTTPError code (Inl e)"
  shows "\<exists>r. run_single_request P idx n url key m p tmo mt temp w
           = (Inr r, w\<lparr>ticks := Suc (Suc (ticks w)), calls := Suc (calls w)\<rparr>)
         \<and> index r = idx
         \<and> duration r = perf_counter P (Suc (ticks w)) - perf_counter P (ticks w)
         \<and> (ok r \<longrightarrow> error r = '''')
         \<and> (\<not> ok r \<longrightarrow> chars r = 0 \<and> error r \<noteq> '''')"
  using assms
  by (auto simp: run_single_request_def except_message_def Let_def
      split: urlopen_outcome.splits sum.splits)

text \<open>
  Claim C3 fails on the code. When \<^verbatim>\<open>urlopen\<close> raises \<open>HTTPError\<close> and reading the
  error body raises in turn (here the socket timeout), the exception is raised inside the
  handler and leaves \<^verbatim>\<open>run_single_request\<close>; in \<^verbatim>\<open>main\<close> it ends the loop at the
  first request and the run is classified \<open>RUNTIME_ERROR\<close>.
\<close>

theorem run_single_request_raises_on_unreadable_error_body:
  "run_single_request stalled_platform 1 5 default_api_url ''k'' ''gpt-4o-mini'' ''ping'' 120 128
       (1 / 10) world0
     = (Inl (Exc SocketTimeout ''timed out''), world0\<lparr>ticks := 1, calls := 1\<rparr>)
   \<and> status (fst (run_benchmark stalled_platform world0)) = ''RUNTIME_ERROR''
   \<and> results (fst (run_benchmark stalled_platform world0)) = []"
proof -
  have one: "\<And>idx n w. run_single_request stalled_platform idx n default_api_url ''k''
       ''gpt-4o-mini'' ''ping'' 120 128 (1 / 10) w
     = (Inl (Exc SocketTimeout ''timed out''), w\<lparr>ticks := Suc (ticks w), calls := Suc (calls w)\<rparr>)"
    by (simp add: run_single_request_def stalled_platform_def base_platform_def)
  have settings: "read_settings stalled_platform (initial_vars stalled_platform)
      = (None, (initial_vars stalled_platform)\<lparr>api_key := ''k''\<rparr>)"
    by (simp add: read_settings_def assign_def env_str_def env_int_def env_float_def
        validate_def initial_vars_def stalled_platform_def base_platform_def default_api_url_def)
  have vars: "request_count (initial_vars stalled_platform) = 5"
    "max_runtime_seconds (initial_vars stalled_platform) = 0"
    "api_url (initial_vars stalled_platform) = default_api_url"
    "model (initial_vars stalled_platform) = ''gpt-4o-mini''"
    "prompt (initial_vars stalled_platform) = ''ping''"
    "timeout_seconds (initial_vars stalled_platform) = 120"
    "max_tokens (initial_vars stalled_platform) = 128"
    "temperature (initial_vars stalled_platform) = 1 / 10"
    by (simp_all add: initial_vars_def stalled_platform_def base_platform_def)
  have loop: "\<And>w. bench_loop stalled_platform ((initial_vars stalled_platform)\<lparr>api_key := ''k''\<rparr>)
       0 1 [] w
     = (Some (Exc SocketTimeout ''timed out''), [],
        w\<lparr>ticks := Suc (Suc (ticks w)), calls := Suc (calls w)\<rparr>)"
    by (subst bench_loop.simps) (simp add: vars one)
  have run: "fst (run_benchmark stalled_platform world0)
      = handle_exception (Exc SocketTimeout ''timed out'')
          ((initial_vars stalled_platform)\<lparr>api_key := ''k'', results := []\<rparr>)"
  proof -
    have "perf_counter stalled_platform (ticks world0) = 0"
      by (simp add: stalled_platform_def base_platform_def world0_def)
    then show ?thesis by (simp add: run_benchmark_def settings loop)
  qed
  have first: "run_single_request stalled_platform 1 5 default_api_url ''k'' ''gpt-4o-mini''
       ''ping'' 120 128 (1 / 10) world0
     = (Inl (Exc SocketTimeout ''timed out''), world0\<lparr>ticks := 1, calls := 1\<rparr>)"
    using one [of 1 5 world0] by (simp add: world0_def)
  have rest: "status (fst (run_benchmark stalled_platform world0)) = ''RUNTIME_ERROR''
      \<and> results (fst (run_benchmark stalled_platform world0)) = []"
    by (simp add: run handle_exception_def)
  from first rest show ?thesis by simp
qed

section \<open>Properties of the configuration\<close>




lemma env_str_optional:
  "env_str P name (Some dflt) False = Inr (case getenv P name of None \<Rightarrow> dflt | Some s \<Rightarrow> s)"
  by (simp add: env_str_def split: option.splits)

text \<open>
  Claim C9 fails on the code. \<^verbatim>\<open>os.getenv(name, default)\<close> falls back to the default
  only for a variable that is absent: with \<open>OPENAI_MODEL\<close> set to the empty string,
  \<^verbatim>\<open>env_str\<close> returns the empty string and the model name of the run is empty, whereas
  the absent variable yields the default \<open>gpt-4o-mini\<close>. (\<^verbatim>\<open>env_int\<close> and
  \<^verbatim>\<open>env_float\<close> do treat the empty string as absent.)
\<close>

theorem env_str_returns_empty_value:
  "env_str empty_model_platform ''OPENAI_MODEL'' (Some ''gpt-4o-mini'') False = Inr ''''
   \<and> model (snd (read_settings empty_model_platform (initial_vars empty_model_platform))) = ''''
   \<and> env_str base_platform ''OPENAI_MODEL'' (Some ''gpt-4o-mini'') False = Inr ''gpt-4o-mini''"
  by (simp add: read_settings_def assign_def env_str_def env_int_def env_float_def
      validate_def initial_vars_def empty_model_platform_def base_platform_def)

section \<open>Properties of the benchmark runner\<close>

lemma run_single_request_index:
  "run_single_request P idx n url key m p tmo mt temp w = (Inr r, w2) \<Longrightarrow> index r = idx"
  by (auto simp: run_single_request_def Let_def
      split: option.splits urlopen_outcome.splits sum.splits)

lemma bench_loop_done:
  "request_count v < idx \<Longrightarrow> bench_loop P v s idx rs w = (None, rs, w)"
  by (simp add: bench_loop.simps)

lemma bench_loop_budget:
  "\<not> request_count v < idx \<Longrightarrow> 0 < max_runtime_seconds v \<Longrightarrow>
     real_of_int (max_runtime_seconds v) \<le> perf_counter P (ticks w) - s \<Longrightarrow>
     bench_loop P v s idx rs w = (None, rs, w\<lparr>ticks := Suc (ticks w)\<rparr>)"
  by (simp add: bench_loop.simps [of P v s idx] Let_def)

lemma bench_loop_raise:
  "\<not> request_count v < idx \<Longrightarrow>
     \<not> (0 < max_runtime_seconds v
        \<and> real_of_int (max_runtime_seconds v) \<le> perf_counter P (ticks w) - s) \<Longrightarrow>
     run_single_request P idx (request_count v) (api_url v) (api_key v) (model v) (prompt v)
       (timeout_seconds v) (max_tokens v) (temperature v) (w\<lparr>ticks := Suc (ticks w)\<rparr>)
       = (Inl e, w2) \<Longrightarrow>
     bench_loop P v s idx rs w = (Some e, rs, w2)"
  by (subst bench_loop.simps) (auto simp: Let_def)

lemma bench_loop_next:
  "\<not> request_count v < idx \<Longrightarrow>
     \<not> (0 < max_runtime_seconds v
        \<and> real_of_int (max_runtime_seconds v) \<le> perf_counter P (ticks w) - s) \<Longrightarrow>
     run_single_request P idx (request_count v) (api_url v) (api_key v) (model v) (prompt v)
       (timeout_seconds v) (max_tokens v) (temperature v) (w\<lparr>ticks := Suc (ticks w)\<rparr>)
       = (Inr result, w2) \<Longrightarrow>
     bench_loop P v s idx rs w
       = bench_loop P v s (idx + 1) (rs @ [result])
           (if 0 < pause_seconds v \<and> idx \<noteq> request_count v
            then w2\<lparr>slept := slept w2 @ [pause_seconds v]\<rparr> else w2)"
  by (subst bench_loop.simps) (auto simp: Let_def)

lemma bench_loop_length:
  "bench_loop P v s idx rs w = (x, rs', w') \<Longrightarrow> idx \<le> request_count v + 1 \<Longrightarrow>
     int (length rs') \<le> int (length rs) + (request_count v + 1 - idx)"
proof (induction P v s idx rs w rule: bench_loop.induct)
  case (1 P v s idx rs w)
  show ?case
  proof (cases "request_count v < idx")
    case True
    with "1.prems" show ?thesis by (simp add: bench_loop_done)
  next
    case False
    show ?thesis
    proof (cases "0 < max_runtime_seconds v
        \<and> real_of_int (max_runtime_seconds v) \<le> perf_counter P (ticks w) - s")
      case True
      with False "1.prems" show ?thesis by (simp add: bench_loop_budget)
    next
      case nb: False
      obtain o2 w2 where r: "run_single_request P idx (request_count v) (api_url v) (api_key v)
          (model v) (prompt v) (timeout_seconds v) (max_tokens v) (temperature v)
          (w\<lparr>ticks := Suc (ticks w)\<rparr>) = (o2, w2)"
        by (cases "run_single_request P idx (request_count v) (api_url v) (api_key v)
          (model v) (prompt v) (timeout_seconds v) (max_tokens v) (temperature v)
          (w\<lparr>ticks := Suc (ticks w)\<rparr>)") auto
      show ?thesis
      proof (cases o2)
        case (Inl e)
        with bench_loop_raise [OF False nb, of e w2 rs] r "1.prems" False show ?thesis
          by simp
      next
        case (Inr result)
        let ?w3 = "if 0 < pause_seconds v \<and> idx \<noteq> request_count v
                     then w2\<lparr>slept := slept w2 @ [pause_seconds v]\<rparr> else w2"
        from bench_loop_next [OF False nb, of result w2 rs] r Inr "1.prems"
        have rec: "bench_loop P v s (idx + 1) (rs @ [result]) ?w3 = (x, rs', w')"
          by simp
        from "1.IH" [OF False refl refl nb r [symmetric] Inr rec] False
        show ?thesis by simp
      qed
    qed
  qed
qed

lemma bench_loop_indices:
  "bench_loop P v s idx rs w = (x, rs', w') \<Longrightarrow> idx = int (length rs) + 1 \<Longrightarrow>
     map index rs = map int [1..<Suc (length rs)] \<Longrightarrow>
     map index rs' = map int [1..<Suc (length rs')]"
proof (induction P v s idx rs w rule: bench_loop.induct)
  case (1 P v s idx rs w)
  show ?case
  proof (cases "request_count v < idx")
    case True
    with "1.prems" show ?thesis by (simp add: bench_loop_done)
  next
    case False
    show ?thesis
    proof (cases "0 < max_runtime_seconds v
        \<and> real_of_int (max_runtime_seconds v) \<le> perf_counter P (ticks w) - s")
      case True
      with False "1.prems" show ?thesis by (simp add: bench_loop_budget)
    next
      case nb: False
      obtain o2 w2 where r: "run_single_request P idx (request_count v) (api_url v) (api_key v)
          (model v) (prompt v) (timeout_seconds v) (max_tokens v) (temperature v)
          (w\<lparr>ticks := Suc (ticks w)\<rparr>) = (o2, w2)"
        by (cases "run_single_request P idx (request_count v) (api_url v) (api_key v)
          (model v) (prompt v) (timeout_seconds v) (max_tokens v) (temperature v)
          (w\<lparr>ticks := Suc (ticks w)\<rparr>)") auto
      show ?thesis
      proof (cases o2)
        case (Inl e)
        with bench_loop_raise [OF False nb, of e w2 rs] r "1.prems" show ?thesis
          by simp
      next
        case (Inr result)
        let ?w3 = "if 0 < pause_seconds v \<and> idx \<noteq> request_count v
                     then w2\<lparr>slept := slept w2 @ [pause_seconds v]\<rparr> else w2"
        from bench_loop_next [OF False nb, of result w2 rs] r Inr "1.prems"
        have rec: "bench_loop P v s (idx + 1) (rs @ [result]) ?w3 = (x, rs', w')"
          by simp
        from r Inr have "index result = idx" by (simp add: run_single_request_index)
        with "1.prems" have inv: "idx + 1 = int (length (rs @ [result])) + 1"
          "map index (rs @ [result]) = map int [1..<Suc (length (rs @ [result]))]"
          by simp_all
        from "1.IH" [OF False refl refl nb r [symmetric] Inr rec inv]
        show ?thesis .
      qed
    qed
  qed
qed

lemma read_settings_validated:
  "read_settings P v0 = (None, v) \<Longrightarrow> validate v = None"
  by (auto simp: read_settings_def assign_def split: sum.splits)

lemma validate_request_count: "validate v = None \<Longrightarrow> 0 < request_count v"
  by (auto simp: validate_def split: if_splits)

lemma handle_exception_status:
  "status (handle_exception e v) = ''CONFIG_ERROR'' \<or> status (handle_exception e v) = ''RUNTIME_ERROR''"
  by (simp add: handle_exception_def)

lemma summarize_counts:
  "success_count (summarize t v) + failure_count (summarize t v) = attempted (summarize t v)
   \<and> attempted (summarize t v) = int (length (results v))
   \<and> success_count (summarize t v) = int (length (filter ok (results v)))
   \<and> results (summarize t v) = results v
   \<and> request_count (summarize t v) = request_count v"
  by (simp add: summarize_def Let_def)

lemma read_settings_counters:
  "read_settings P (initial_vars P) = (x, v) \<Longrightarrow>
     attempted v = 0 \<and> success_count v = 0 \<and> failure_count v = 0 \<and> results v = []"
  by (auto simp: read_settings_def assign_def initial_vars_def split: sum.splits)

lemma handle_exception_counters:
  "attempted (handle_exception e v) = attempted v"
  "success_count (handle_exception e v) = success_count v"
  "failure_count (handle_exception e v) = failure_count v"
  "request_count (handle_exception e v) = request_count v"
  by (simp_all add: handle_exception_def)

text \<open>
  Claim C4. After every run in which the settings were resolved, so that the loop was
  run, the success count and the failure count add up to the number of attempted
  requests, which is at most the planned count. When the loop was left without an
  exception, so that the summary was computed (the run is not classified
  \<open>CONFIG_ERROR\<close> or \<open>RUNTIME_ERROR\<close>), the number of attempted requests is the
  length of the result sequence and the success count is the number of results with
  \<open>ok\<close> true.
\<close>

theorem summary_counts_add_up:
  assumes "read_settings P (initial_vars P) = (None, v0)"
    and "run_benchmark P w = (v, w')"
  shows "success_count v + failure_count v = attempted v
       \<and> attempted v \<le> request_count v
       \<and> (status v \<noteq> ''CONFIG_ERROR'' \<and> status v \<noteq> ''RUNTIME_ERROR'' \<longrightarrow>
            attempted v = int (length (results v))
            \<and> success_count v = int (length (filter ok (results v))))"
proof -
  from assms(1) have rc: "0 < request_count v0"
    using read_settings_validated validate_request_count by blast
  from read_settings_counters [OF assms(1)]
  have zero: "attempted v0 = 0" "success_count v0 = 0" "failure_count v0 = 0"
    by simp_all
  let ?s = "perf_counter P (ticks w)"
  obtain y rs w2 where loop: "bench_loop P v0 ?s 1 [] (w\<lparr>ticks := Suc (ticks w)\<rparr>) = (y, rs, w2)"
    by (cases "bench_loop P v0 ?s 1 [] (w\<lparr>ticks := Suc (ticks w)\<rparr>)") auto
  show ?thesis
  proof (cases y)
    case (Some e)
    with assms loop have v: "v = handle_exception e (v0\<lparr>results := rs\<rparr>)"
      by (simp add: run_benchmark_def Let_def)
    from handle_exception_status [of e "v0\<lparr>results := rs\<rparr>"] v
    have "status v = ''CONFIG_ERROR'' \<or> status v = ''RUNTIME_ERROR''" by simp
    with v zero rc show ?thesis by (auto simp: handle_exception_counters)
  next
    case None
    with assms loop
    have v: "v = summarize (perf_counter P (ticks w2) - ?s) (v0\<lparr>results := rs\<rparr>)"
      by (simp add: run_benchmark_def Let_def)
    from bench_loop_length [OF loop] rc have "int (length rs) \<le> request_count v0" by simp
    with summarize_counts [of "perf_counter P (ticks w2) - ?s" "v0\<lparr>results := rs\<rparr>"] v
    show ?thesis by simp
  qed
qed

text \<open>
  Claim C5. With a budget greater than 0, once the elapsed time read at a request
  boundary has reached the budget, the loop stops: it returns the results appended so
  far and sends no further request. The results of a run carry the indices 1, 2, ... in
  order, so that no index from the boundary on appears. With five planned requests and
  the budget spent at the boundary before the third, the result sequence has the two
  entries of the requests 1 and 2.
\<close>

theorem budget_stops_loop:
  "(0 < max_runtime_seconds v \<and> idx \<le> request_count v
      \<and> real_of_int (max_runtime_seconds v) \<le> perf_counter P (ticks w) - suite_start \<longrightarrow>
    bench_loop P v suite_start idx rs w = (None, rs, w\<lparr>ticks := Suc (ticks w)\<rparr>))
   \<and> (bench_loop P v suite_start 1 [] w0 = (x, rs', w') \<longrightarrow>
        map index rs' = map int [1..<Suc (length rs')])"
proof (intro conjI impI)
  assume "0 < max_runtime_seconds v \<and> idx \<le> request_count v
      \<and> real_of_int (max_runtime_seconds v) \<le> perf_counter P (ticks w) - suite_start"
  then show "bench_loop P v suite_start idx rs w = (None, rs, w\<lparr>ticks := Suc (ticks w)\<rparr>)"
    by (simp add: bench_loop_budget)
next
  assume "bench_loop P v suite_start 1 [] w0 = (x, rs', w')"
  from bench_loop_indices [OF this] show "map index rs' = map int [1..<Suc (length rs')]"
    by simp
qed

lemma budget_settings:
  "read_settings budget_platform (initial_vars budget_platform) = (None, budget_vars)"
  by (simp add: read_settings_def assign_def env_str_def env_int_def env_float_def
      validate_def initial_vars_def budget_platform_def base_platform_def budget_vars_def
      default_api_url_def)

lemma budget_vars_fields:
  "request_count budget_vars = 5" "max_runtime_seconds budget_vars = 2"
  "pause_seconds budget_vars = 0"
  by (simp_all add: budget_vars_def initial_vars_def)

lemma budget_request:
  "run_single_request budget_platform idx n url key m p tmo mt temp w
     = (Inr (success_result idx), w\<lparr>ticks := Suc (Suc (ticks w)), calls := Suc (calls w)\<rparr>)"
  by (simp add: run_single_request_def with_body_def parse_sse_stream_def success_result_def
      budget_platform_def base_platform_def field_simps)

lemma budget_clock: "perf_counter budget_platform k = real k / 3"
  by (simp add: budget_platform_def base_platform_def)

lemma budget_run:
  "bench_loop budget_platform budget_vars 0 1 [] (world0\<lparr>ticks := Suc 0\<rparr>)
     = (None, [success_result 1, success_result 2], world0\<lparr>ticks := 8, calls := 2\<rparr>)"
proof -
  have "bench_loop budget_platform budget_vars 0 1 [] (world0\<lparr>ticks := Suc 0\<rparr>)
      = bench_loop budget_platform budget_vars 0 2 [success_result 1]
          (world0\<lparr>ticks := 4, calls := 1\<rparr>)"
    by (subst bench_loop_next [where result = "success_result 1"
          and ?w2.0 = "world0\<lparr>ticks := 4, calls := 1\<rparr>"])
      (simp_all add: budget_vars_fields budget_clock budget_request world0_def)
  also have "\<dots> = bench_loop budget_platform budget_vars 0 3
      [success_result 1, success_result 2] (world0\<lparr>ticks := 7, calls := 2\<rparr>)"
    by (subst bench_loop_next [where result = "success_result 2"
          and ?w2.0 = "world0\<lparr>ticks := 7, calls := 2\<rparr>"])
      (simp_all add: budget_vars_fields budget_clock budget_request world0_def)
  also have "\<dots> = (None, [success_result 1, success_result 2], world0\<lparr>ticks := 8, calls := 2\<rparr>)"
    by (subst bench_loop_budget)
      (simp_all add: budget_vars_fields budget_clock world0_def)
  finally show ?thesis .
qed

theorem summary_counts_add_up_witness:
  "read_settings budget_platform (initial_vars budget_platform) = (None, budget_vars)
   \<and> status (fst (run_benchmark budget_platform world0)) = ''SUCCESS''
   \<and> results (fst (run_benchmark budget_platform world0)) = [success_result 1, success_result 2]
   \<and> attempted (fst (run_benchmark budget_platform world0)) = 2
   \<and> success_count (fst (run_benchmark budget_platform world0)) = 2
   \<and> failure_count (fst (run_benchmark budget_platform world0)) = 0
   \<and> request_count (fst (run_benchmark budget_platform world0)) = 5"
proof -
  let ?v = "fst (run_benchmark budget_platform world0)"
  have w: "ticks world0 = 0" "ticks (world0\<lparr>ticks := 8, calls := 2\<rparr>) = 8"
    by (simp_all add: world0_def)
  have run: "?v = summarize (8 / 3)
      (budget_vars\<lparr>results := [success_result 1, success_result 2]\<rparr>)"
    by (simp add: run_benchmark_def budget_settings w budget_run budget_clock Let_def)
  have st: "status ?v = ''SUCCESS''"
    "results ?v = [success_result 1, success_result 2]"
    "request_count ?v = 5"
    by (simp_all add: run summarize_def Let_def success_result_def budget_vars_fields)
  from summary_counts_add_up [OF budget_settings, of world0 ?v
      "snd (run_benchmark budget_platform world0)"] st
  have "attempted ?v = 2" "success_count ?v = 2" "failure_count ?v = 0"
    by (simp_all add: success_result_def)
  with st budget_settings show ?thesis by simp
qed

theorem budget_stops_loop_witness:
  "0 < max_runtime_seconds budget_vars
   \<and> request_count budget_vars = 5
   \<and> real_of_int (max_runtime_seconds budget_vars) \<le> perf_counter budget_platform 7 - 0
   \<and> bench_loop budget_platform budget_vars 0 3 [success_result 1, success_result 2]
         (world0\<lparr>ticks := 7, calls := 2\<rparr>)
       = (None, [success_result 1, success_result 2], world0\<lparr>ticks := 8, calls := 2\<rparr>)
   \<and> bench_loop budget_platform budget_vars 0 1 [] (world0\<lparr>ticks := Suc 0\<rparr>)
       = (None, [success_result 1, success_result 2], world0\<lparr>ticks := 8, calls := 2\<rparr>)
   \<and> map index [success_result 1, success_result 2] = [1, 2]
   \<and> length [success_result 1, success_result 2] = 2"
proof -
  have h: "0 < max_runtime_seconds budget_vars" "request_count budget_vars = 5"
    "real_of_int (max_runtime_seconds budget_vars) \<le> perf_counter budget_platform 7 - 0"
    by (simp_all add: budget_vars_fields budget_clock)
  have t: "ticks (world0\<lparr>ticks := 7, calls := 2\<rparr>) = 7"
    "(world0\<lparr>ticks := 7, calls := 2\<rparr>)\<lparr>ticks := Suc 7\<rparr> = world0\<lparr>ticks := 8, calls := 2\<rparr>"
    by (simp_all add: world0_def)
  from budget_stops_loop [of budget_vars 3 budget_platform "world0\<lparr>ticks := 7, calls := 2\<rparr>" 0
      "[success_result 1, success_result 2]" "world0\<lparr>ticks := Suc 0\<rparr>" None
      "[success_result 1, success_result 2]" "world0\<lparr>ticks := 8, calls := 2\<rparr>"]
    h t budget_run
  show ?thesis by (simp add: success_result_def)
qed

section \<open>Properties of the persistence step\<close>















end
